theory Spec2Isabelle
  imports Complex_Main "HOL-Library.Word"
begin

section \<open>Scalar (dolfin/la/Scalar.h)\<close>

text \<open>
  The class \<^verbatim>\<open>Scalar\<close> holds one \<^verbatim>\<open>double\<close>. The arithmetic of the value is kept
  abstract: the value type is any type with a \<open>0\<close> and a \<open>+\<close>, and no law of addition is
  assumed unless a theorem states it. What is proved therefore holds for IEEE doubles with
  their rounding as well as for the reals; the concrete examples are evaluated in the
  reals, on values that doubles represent exactly.

  \<^verbatim>\<open>uint\<close> is a 32-bit unsigned integer. A pointer to an array is \<open>None\<close> when it is the
  null pointer and \<open>Some xs\<close> when it points to the elements \<open>xs\<close>.
\<close>

type_synonym uint = "32 word"

type_synonym 'a ptr = "'a list option"

text \<open>
  How a call can fail: a failed \<^verbatim>\<open>assert\<close>, a call of dolfin's \<^verbatim>\<open>error\<close> with its message,
  and a read through a null pointer or past the end of an array, which C++ leaves
  undefined.
\<close>

datatype error = AssertionFailure | DolfinError string | UndefinedBehaviour

text \<open>
  The macro \<^verbatim>\<open>assert(cond)\<close> of \<^verbatim>\<open><cassert>\<close>. It checks its condition in a build without
  \<^verbatim>\<open>NDEBUG\<close> and expands to nothing in a build with \<^verbatim>\<open>NDEBUG\<close>, so the build is a
  parameter of every function that asserts: \<open>ndebug\<close> says that \<^verbatim>\<open>NDEBUG\<close> is defined.
\<close>

definition c_assert :: "bool \<Rightarrow> bool \<Rightarrow> error + unit" where
  "c_assert ndebug cond = (if ndebug then Inr () else if cond then Inr () else Inl AssertionFailure)"

record 'a Scalar =
  value_d :: 'a

text \<open>
  Modelled from the spec: dolfin's \<^verbatim>\<open>error\<close> function is declared in the logging headers,
  which are not among these sources. The spec says that the calls below fail (with what it
  names UnsupportedOperationError); the function reports its message and does not return.
\<close>

definition dolfin_error :: "string \<Rightarrow> error + 'b" where
  "dolfin_error msg = Inl (DolfinError msg)"

text \<open>\<^verbatim>\<open>Scalar() : GenericTensor(), value(0.0)\<close>\<close>

definition Scalar_Scalar :: "'a::zero Scalar" where
  "Scalar_Scalar = \<lparr>value_d = 0\<rparr>"

text \<open>\<^verbatim>\<open>resize(uint rank, const uint* dims) { assert(rank == 0); value = 0.0; }\<close>\<close>

definition Scalar_resize ::
  "bool \<Rightarrow> uint \<Rightarrow> uint ptr \<Rightarrow> 'a::zero Scalar \<Rightarrow> error + 'a Scalar" where
  "Scalar_resize ndebug rank dims s =
     (case c_assert ndebug (rank = 0) of
        Inl e \<Rightarrow> Inl e
      | Inr _ \<Rightarrow> Inr (s\<lparr>value_d := 0\<rparr>))"

text \<open>\<^verbatim>\<open>rank() const { return 0; }\<close>\<close>

definition Scalar_rank :: "'a Scalar \<Rightarrow> uint" where
  "Scalar_rank s = 0"

text \<open>\<^verbatim>\<open>size(uint dim) const { error("..."); return 0; }\<close>\<close>

definition Scalar_size :: "uint \<Rightarrow> 'a Scalar \<Rightarrow> error + uint" where
  "Scalar_size dimension s =
     (case (dolfin_error ''The size() function is not available for scalars.'' :: error + unit) of
        Inl e \<Rightarrow> Inl e
      | Inr _ \<Rightarrow> Inr 0)"

text \<open>\<^verbatim>\<open>local_range(uint dim) const { error("..."); return std::make_pair(0, 0); }\<close>\<close>

definition Scalar_local_range :: "uint \<Rightarrow> 'a Scalar \<Rightarrow> error + uint \<times> uint" where
  "Scalar_local_range dimension s =
     (case (dolfin_error ''The size() function is not available for scalars.'' :: error + unit) of
        Inl e \<Rightarrow> Inl e
      | Inr _ \<Rightarrow> Inr (0, 0))"

text \<open>\<^verbatim>\<open>block[0]\<close> for a \<^verbatim>\<open>const double* block\<close>.\<close>

definition deref0 :: "'a ptr \<Rightarrow> error + 'a" where
  "deref0 block =
     (case block of
        None \<Rightarrow> Inl UndefinedBehaviour
      | Some [] \<Rightarrow> Inl UndefinedBehaviour
      | Some (b # bs) \<Rightarrow> Inr b)"

text \<open>\<^verbatim>\<open>set(const double* block, const uint* num_rows, const uint * const * rows)
  { value = block[0]; }\<close>\<close>

definition Scalar_set ::
  "'a ptr \<Rightarrow> uint ptr \<Rightarrow> uint ptr ptr \<Rightarrow> 'a Scalar \<Rightarrow> error + 'a Scalar" where
  "Scalar_set block num_rows rows s =
     (case deref0 block of
        Inl e \<Rightarrow> Inl e
      | Inr b \<Rightarrow> Inr (s\<lparr>value_d := b\<rparr>))"

text \<open>
  The three overloads of \<^verbatim>\<open>add\<close>, in the order of the source. Each has the body
  \<^verbatim>\<open>{ assert(block); value += block[0]; }\<close>; they differ in the type of the index
  argument: counts and a pointer to pointers, a vector of pointers to vectors, and a vector
  of vectors.
\<close>

definition Scalar_add ::
  "bool \<Rightarrow> 'a ptr \<Rightarrow> uint ptr \<Rightarrow> uint ptr ptr \<Rightarrow> 'a::plus Scalar \<Rightarrow> error + 'a Scalar" where
  "Scalar_add ndebug block num_rows rows s =
     (case c_assert ndebug (block \<noteq> None) of
        Inl e \<Rightarrow> Inl e
      | Inr _ \<Rightarrow>
          (case deref0 block of
             Inl e \<Rightarrow> Inl e
           | Inr b \<Rightarrow> Inr (s\<lparr>value_d := value_d s + b\<rparr>)))"

definition Scalar_add_vector_ptrs ::
  "bool \<Rightarrow> 'a ptr \<Rightarrow> uint list option list \<Rightarrow> 'a::plus Scalar \<Rightarrow> error + 'a Scalar" where
  "Scalar_add_vector_ptrs ndebug block rows s =
     (case c_assert ndebug (block \<noteq> None) of
        Inl e \<Rightarrow> Inl e
      | Inr _ \<Rightarrow>
          (case deref0 block of
             Inl e \<Rightarrow> Inl e
           | Inr b \<Rightarrow> Inr (s\<lparr>value_d := value_d s + b\<rparr>)))"

definition Scalar_add_vectors ::
  "bool \<Rightarrow> 'a ptr \<Rightarrow> uint list list \<Rightarrow> 'a::plus Scalar \<Rightarrow> error + 'a Scalar" where
  "Scalar_add_vectors ndebug block rows s =
     (case c_assert ndebug (block \<noteq> None) of
        Inl e \<Rightarrow> Inl e
      | Inr _ \<Rightarrow>
          (case deref0 block of
             Inl e \<Rightarrow> Inl e
           | Inr b \<Rightarrow> Inr (s\<lparr>value_d := value_d s + b\<rparr>)))"

text \<open>\<^verbatim>\<open>zero() { value = 0.0; }\<close>\<close>

definition Scalar_zero :: "'a::zero Scalar \<Rightarrow> 'a Scalar" where
  "Scalar_zero s = s\<lparr>value_d := 0\<rparr>"

text \<open>\<^verbatim>\<open>operator double() const\<close> and \<^verbatim>\<open>getval() const\<close>: \<^verbatim>\<open>{ return value; }\<close>\<close>

definition Scalar_getval :: "'a Scalar \<Rightarrow> 'a" where
  "Scalar_getval s = value_d s"

text \<open>\<^verbatim>\<open>operator= (double value) { this->value = value; return *this; }\<close>\<close>

definition Scalar_assign :: "'a \<Rightarrow> 'a Scalar \<Rightarrow> 'a Scalar" where
  "Scalar_assign v s = s\<lparr>value_d := v\<rparr>"

section \<open>Scalar::apply in a group of processes\<close>

text \<open>
  \<^verbatim>\<open>std::accumulate(first, last, init)\<close>: starting from \<open>init\<close>, each element is added on
  the right, from the first to the last.
\<close>

fun accumulate :: "'a::plus list \<Rightarrow> 'a \<Rightarrow> 'a" where
  "accumulate [] init = init"
| "accumulate (x # xs) init = accumulate xs (init + x)"

text \<open>
  What a call of \<^verbatim>\<open>apply\<close> does on one process: either it returns without communicating,
  or it enters the collective \<^verbatim>\<open>MPI::gather\<close> with its buffer and goes on with the
  gathered values.
\<close>

datatype 'a action = Return "'a Scalar" | Gather "'a list" "'a list \<Rightarrow> 'a Scalar"

text \<open>
  \<^verbatim>\<open>apply(std::string mode)\<close>. What \<^verbatim>\<open>MPI::num_processes()\<close> and
  \<^verbatim>\<open>MPI::process_number()\<close> return are parameters, the second below the first;
  \<^verbatim>\<open>std::vector<double> values(n)\<close> holds \<open>n\<close> zeros.
\<close>

definition Scalar_apply ::
  "string \<Rightarrow> nat \<Rightarrow> nat \<Rightarrow> 'a::{zero,plus} Scalar \<Rightarrow> 'a action" where
  "Scalar_apply mode num_processes process_number s =
     (if num_processes > 1 then
        Gather ((replicate num_processes 0)[process_number := value_d s])
               (\<lambda>values. s\<lparr>value_d := accumulate values 0\<rparr>)
      else Return s)"

text \<open>
  Modelled from the spec: \<^verbatim>\<open>MPI::gather\<close> is declared in \<^verbatim>\<open>dolfin/common/MPI.h\<close>, which is
  not among these sources. The spec gives the group the operation
  \<^verbatim>\<open>allGather(localValue) -> sequence<value> ordered by rank\<close>: given the buffers of all
  processes in rank order, every process ends with the buffer whose entry \<open>i\<close> is the
  entry that process \<open>i\<close> had stored at its own place \<open>i\<close>.
\<close>

definition MPI_gather :: "'a list list \<Rightarrow> 'a list" where
  "MPI_gather bufs = map (\<lambda>i. bufs ! i ! i) [0..<length bufs]"

text \<open>The buffers of the processes that entered the collective, and how a process goes on
  once the collective has returned.\<close>

fun buffers :: "'a action list \<Rightarrow> 'a list list" where
  "buffers [] = []"
| "buffers (Return s # as) = buffers as"
| "buffers (Gather buf k # as) = buf # buffers as"

fun resume :: "'a list \<Rightarrow> 'a action \<Rightarrow> 'a Scalar" where
  "resume gathered (Return s) = s"
| "resume gathered (Gather buf k) = k gathered"

text \<open>
  A group is the list of the Scalars of its processes, in rank order. Every process calls
  \<^verbatim>\<open>apply\<close>; the processes that entered the collective receive the gathered buffer. The
  result is the group after the call and the number of processes that communicated.
\<close>

definition apply_calls :: "string \<Rightarrow> 'a::{zero,plus} Scalar list \<Rightarrow> 'a action list" where
  "apply_calls mode procs =
     map (\<lambda>pn. Scalar_apply mode (length procs) pn (procs ! pn)) [0..<length procs]"

definition apply_group ::
  "string \<Rightarrow> 'a::{zero,plus} Scalar list \<Rightarrow> 'a Scalar list \<times> nat" where
  "apply_group mode procs =
     (let acts = apply_calls mode procs;
          gathered = MPI_gather (buffers acts)
      in (map (resume gathered) acts, length (buffers acts)))"

text \<open>A sequence of \<^verbatim>\<open>add\<close> calls on one Scalar; a failing call ends the run.\<close>

fun add_all :: "bool \<Rightarrow> 'a ptr list \<Rightarrow> 'a::plus Scalar \<Rightarrow> error + 'a Scalar" where
  "add_all ndebug [] s = Inr s"
| "add_all ndebug (block # blocks) s =
     (case Scalar_add ndebug block None None s of
        Inl e \<Rightarrow> Inl e
      | Inr s' \<Rightarrow> add_all ndebug blocks s')"

section \<open>Scalar objects on the heap: copy\<close>

text \<open>
  \<^verbatim>\<open>copy\<close> allocates a new object, so the objects live on a heap: the list of the
  Scalars allocated so far. The address of an object is its position in the list, and
  \<^verbatim>\<open>new\<close> appends. A call on an address that holds no object is undefined in C++.
\<close>

type_synonym 'a heap = "'a Scalar list"

text \<open>\<^verbatim>\<open>Scalar* copy() const { Scalar* s = new Scalar(); s->value = value; return s; }\<close>,
  called on the object at \<open>self\<close>.\<close>

definition Scalar_copy :: "nat \<Rightarrow> 'a::zero heap \<Rightarrow> error + nat \<times> 'a heap" where
  "Scalar_copy self h =
     (if \<not> self < length h then Inl UndefinedBehaviour
      else let s = length h;
               h1 = h @ [Scalar_Scalar];
               h2 = h1[s := (h1 ! s)\<lparr>value_d := value_d (h1 ! self)\<rparr>]
           in Inr (s, h2))"

text \<open>The calls that change a Scalar, and a call on the object at an address.\<close>

datatype 'a call =
    Call_resize uint "uint ptr"
  | Call_set "'a ptr"
  | Call_add "'a ptr"
  | Call_zero
  | Call_assign 'a

fun invoke :: "bool \<Rightarrow> 'a::{zero,plus} call \<Rightarrow> 'a Scalar \<Rightarrow> error + 'a Scalar" where
  "invoke ndebug (Call_resize rank dims) s = Scalar_resize ndebug rank dims s"
| "invoke ndebug (Call_set block) s = Scalar_set block None None s"
| "invoke ndebug (Call_add block) s = Scalar_add ndebug block None None s"
| "invoke ndebug Call_zero s = Inr (Scalar_zero s)"
| "invoke ndebug (Call_assign v) s = Inr (Scalar_assign v s)"

definition call_at ::
  "bool \<Rightarrow> nat \<Rightarrow> 'a::{zero,plus} call \<Rightarrow> 'a heap \<Rightarrow> error + 'a heap" where
  "call_at ndebug self c h =
     (if \<not> self < length h then Inl UndefinedBehaviour
      else case invoke ndebug c (h ! self) of
        Inl e \<Rightarrow> Inl e
      | Inr s \<Rightarrow> Inr (h[self := s]))"

fun run ::
  "bool \<Rightarrow> (nat \<times> 'a::{zero,plus} call) list \<Rightarrow> 'a heap \<Rightarrow> error + 'a heap" where
  "run ndebug [] h = Inr h"
| "run ndebug ((self, c) # cs) h =
     (case call_at ndebug self c h of
        Inl e \<Rightarrow> Inl e
      | Inr h' \<Rightarrow> run ndebug cs h')"

section \<open>Form (dolfin/fem/Form.h)\<close>

text \<open>
  The header declares the class \<^verbatim>\<open>Form\<close>: its data members and the signatures of its
  member functions. The bodies of the member functions, the classes of the function spaces
  and of the coefficients, and the kernel descriptor \<^verbatim>\<open>ufc::form\<close> are declared elsewhere.
\<close>

text \<open>
  Modelled from the spec: the class \<^verbatim>\<open>function::FunctionSpace\<close> is only declared in the
  header. The spec says of an argument space that it exposes its maximum local
  degrees-of-freedom count.
\<close>

record FunctionSpace =
  max_element_dofs :: nat

text \<open>
  The data members that the lookups and the sizes read. \<^verbatim>\<open>_function_spaces\<close> holds one space
  for each argument, test space first. \<^verbatim>\<open>_coefficient_index_map\<close> and
  \<^verbatim>\<open>_coefficient_name_map\<close> are the resolvers that the two setters install, \<open>None\<close> as long as
  none is installed.

  Modelled from the spec: the names of the coefficients, in the order in which the kernel
  descriptor registers them, stand for the built-in map of the descriptor between names
  and indices; and a resolver answers \<open>None\<close> for what it does not map.
\<close>

record Form =
  function_spaces :: "FunctionSpace list"
  coefficient_names :: "string list"
  coefficient_index_map :: "(string \<Rightarrow> int option) option"
  coefficient_name_map :: "(int \<Rightarrow> string option) option"


text \<open>Modelled from the spec: \<^verbatim>\<open>rank()\<close>, whose body is missing, returns the number of
  argument spaces.\<close>

definition Form_rank :: "Form \<Rightarrow> nat" where
  "Form_rank f = length (function_spaces f)"

text \<open>
  Modelled from the spec: \<^verbatim>\<open>max_element_tensor_size()\<close>, whose body is missing, is the product
  over all arguments of the maximum local degrees-of-freedom count of the argument's space,
  and 1 for rank 0: a running product that starts at 1 and takes one factor for each space.
\<close>

definition Form_max_element_tensor_size :: "Form \<Rightarrow> nat" where
  "Form_max_element_tensor_size f =
     fold (\<lambda>V num_entries. num_entries * max_element_dofs V) (function_spaces f) 1"








section \<open>Scalar: failures of resize, size and local\_range\<close>

text \<open>
  Claim C5, amended. \<^verbatim>\<open>resize(rank, dims)\<close> on a Scalar, whose rank is fixed at 0, sets
  the value to 0 when \<open>rank = 0\<close>. When \<open>rank \<noteq> 0\<close> it fails in a build that checks
  assertions, on \<^verbatim>\<open>assert(rank == 0)\<close>, which is what the spec names UnsupportedRankError;
  in a build with \<^verbatim>\<open>NDEBUG\<close> it does not fail and sets the value to 0 whatever the rank.
\<close>

theorem resize_rank_check:
  "(\<not> ndebug \<and> rank \<noteq> 0 \<longrightarrow> Scalar_resize ndebug rank dims s = Inl AssertionFailure) \<and>
   (rank = 0 \<longrightarrow> Scalar_resize ndebug rank dims s = Inr (s\<lparr>value_d := 0\<rparr>) \<and>
                  Scalar_resize ndebug rank dims s = Inr Scalar_Scalar) \<and>
   (ndebug \<longrightarrow> Scalar_resize ndebug rank dims s = Inr (s\<lparr>value_d := 0\<rparr>))"
  by (simp add: Scalar_resize_def c_assert_def Scalar_Scalar_def)

theorem resize_rank_check_witness:
  "(2::uint) \<noteq> 0 \<and>
   Scalar_resize False 2 (Some [3, 4]) \<lparr>value_d = 5::real\<rparr> = Inl AssertionFailure \<and>
   Scalar_resize False 0 None \<lparr>value_d = 5::real\<rparr> = Inr \<lparr>value_d = 0\<rparr> \<and>
   Scalar_resize True 0 None \<lparr>value_d = 5::real\<rparr> = Inr \<lparr>value_d = 0\<rparr> \<and>
   Scalar_resize True 7 None \<lparr>value_d = 5::real\<rparr> = Inr \<lparr>value_d = 0\<rparr>"
  using resize_rank_check [of False 2 "Some [3, 4]" "\<lparr>value_d = 5::real\<rparr>"]
        resize_rank_check [of False 0 None "\<lparr>value_d = 5::real\<rparr>"]
        resize_rank_check [of True 0 None "\<lparr>value_d = 5::real\<rparr>"]
        resize_rank_check [of True 7 None "\<lparr>value_d = 5::real\<rparr>"]
  by simp

text \<open>
  Claim C5 as the spec states it, that \<^verbatim>\<open>resize\<close> fails whenever \<open>rank \<noteq> 0\<close>, does not
  hold in a build with \<^verbatim>\<open>NDEBUG\<close>: there \<^verbatim>\<open>resize(2, dims)\<close> returns, with the value 0.
\<close>

theorem resize_nonzero_rank_counterexample:
  "(2::uint) \<noteq> 0 \<and>
   Scalar_resize True 2 (Some [3, 4]) \<lparr>value_d = 5::real\<rparr> = Inr \<lparr>value_d = 0\<rparr> \<and>
   Scalar_resize True 2 (Some [3, 4]) \<lparr>value_d = 5::real\<rparr> \<noteq> Inl AssertionFailure"
  by (simp add: Scalar_resize_def c_assert_def)

text \<open>
  Claim C6. On a Scalar, \<^verbatim>\<open>size(dim)\<close> and \<^verbatim>\<open>local_range(dim)\<close> fail for every dimension argument:
  both call \<^verbatim>\<open>error\<close> before anything else, and neither returns a size or a range. The
  failure is the one the spec names UnsupportedOperationError.
\<close>

theorem size_local_range_fail:
  "Scalar_size dimension s = Inl (DolfinError ''The size() function is not available for scalars.'') \<and>
   Scalar_local_range dimension s =
     Inl (DolfinError ''The size() function is not available for scalars.'')"
  by (simp add: Scalar_size_def Scalar_local_range_def dolfin_error_def)

theorem size_local_range_fail_witness:
  "Scalar_size 0 \<lparr>value_d = 5::real\<rparr> =
     Inl (DolfinError ''The size() function is not available for scalars.'') \<and>
   Scalar_local_range 1 \<lparr>value_d = 5::real\<rparr> =
     Inl (DolfinError ''The size() function is not available for scalars.'')"
  using size_local_range_fail [of 0 "\<lparr>value_d = 5::real\<rparr>"]
        size_local_range_fail [of 1 "\<lparr>value_d = 5::real\<rparr>"]
  by simp

section \<open>Scalar: the overloads of add\<close>

lemma Scalar_add_Some:
  "Scalar_add ndebug (Some (b # bs)) num_rows rows s = Inr (s\<lparr>value_d := value_d s + b\<rparr>)"
  by (simp add: Scalar_add_def c_assert_def deref0_def)

text \<open>
  Claim C7. The three overloads of \<^verbatim>\<open>add\<close> agree: for the same block and the same
  Scalar they return the same result whatever the index arguments are, and for a block
  with a first entry that result is the Scalar with \<open>block[0]\<close> added to its value.
\<close>

theorem add_overloads_agree:
  "Scalar_add ndebug block num_rows rows s = Scalar_add_vector_ptrs ndebug block rows_p s \<and>
   Scalar_add_vector_ptrs ndebug block rows_p s = Scalar_add_vectors ndebug block rows_v s \<and>
   Scalar_add ndebug (Some (b # bs)) num_rows rows s = Inr (s\<lparr>value_d := value_d s + b\<rparr>) \<and>
   Scalar_add_vector_ptrs ndebug (Some (b # bs)) rows_p s
     = Inr (s\<lparr>value_d := value_d s + b\<rparr>) \<and>
   Scalar_add_vectors ndebug (Some (b # bs)) rows_v s = Inr (s\<lparr>value_d := value_d s + b\<rparr>)"
  by (simp add: Scalar_add_def Scalar_add_vector_ptrs_def Scalar_add_vectors_def c_assert_def
        deref0_def)

theorem add_overloads_agree_witness:
  "Scalar_add False (Some [2::real]) (Some [1]) (Some [Some [0]]) \<lparr>value_d = 5\<rparr>
     = Inr \<lparr>value_d = 7\<rparr> \<and>
   Scalar_add_vector_ptrs False (Some [2::real]) [Some [0], None] \<lparr>value_d = 5\<rparr>
     = Inr \<lparr>value_d = 7\<rparr> \<and>
   Scalar_add_vectors False (Some [2::real]) ([3, 4] # []) \<lparr>value_d = 5\<rparr> = Inr \<lparr>value_d = 7\<rparr> \<and>
   Scalar_add_vectors True (Some [2::real]) ([3, 4] # []) \<lparr>value_d = 5\<rparr> = Inr \<lparr>value_d = 7\<rparr>"
  using add_overloads_agree
    [of False "Some [2::real]" "Some [1]" "Some [Some [0]]" "\<lparr>value_d = 5\<rparr>" "[Some [0], None]"
        "[3, 4] # []" 2 "[]"]
    add_overloads_agree
    [of True "Some [2::real]" "Some [1]" "Some [Some [0]]" "\<lparr>value_d = 5\<rparr>" "[Some [0], None]"
        "[3, 4] # []" 2 "[]"]
  by simp

section \<open>Scalar: apply in a group\<close>

lemma buffers_Gather:
  "buffers (map (\<lambda>pn. Gather (f pn) (k pn)) xs) = map f xs"
  by (induction xs) simp_all

lemma buffers_Return:
  "buffers (map (\<lambda>pn. Return (f pn)) xs) = []"
  by (induction xs) simp_all

lemma apply_calls_many:
  "1 < length g \<Longrightarrow>
   apply_calls mode g =
     map (\<lambda>pn. Gather ((replicate (length g) 0)[pn := value_d (g ! pn)])
                       (\<lambda>values. (g ! pn)\<lparr>value_d := accumulate values 0\<rparr>))
         [0..<length g]"
  by (simp add: apply_calls_def Scalar_apply_def)

lemma apply_calls_few:
  "\<not> 1 < length g \<Longrightarrow> apply_calls mode g = map (\<lambda>pn. Return (g ! pn)) [0..<length g]"
  by (simp add: apply_calls_def Scalar_apply_def)

lemma gathered_many:
  assumes "1 < length g"
  shows "MPI_gather (buffers (apply_calls mode g)) = map value_d g"
proof (rule nth_equalityI)
  show "length (MPI_gather (buffers (apply_calls mode g))) = length (map value_d g)"
    using assms by (simp add: apply_calls_many buffers_Gather MPI_gather_def)
next
  fix i
  assume "i < length (MPI_gather (buffers (apply_calls mode g)))"
  then have "i < length g"
    using assms by (simp add: apply_calls_many buffers_Gather MPI_gather_def)
  then show "MPI_gather (buffers (apply_calls mode g)) ! i = map value_d g ! i"
    using assms by (simp add: apply_calls_many buffers_Gather MPI_gather_def)
qed

lemma apply_group_many:
  assumes "1 < length g"
  shows "apply_group mode g =
     (replicate (length g) \<lparr>value_d = accumulate (map value_d g) 0\<rparr>, length g)"
proof -
  have len: "length (buffers (apply_calls mode g)) = length g"
    using assms by (simp add: apply_calls_many buffers_Gather)
  have "map (resume (map value_d g)) (apply_calls mode g) =
        replicate (length g) \<lparr>value_d = accumulate (map value_d g) 0\<rparr>"
    using assms by (intro nth_equalityI) (simp_all add: apply_calls_many)
  then show ?thesis
    using assms by (simp add: apply_group_def Let_def gathered_many len)
qed

lemma apply_group_few:
  assumes "\<not> 1 < length g"
  shows "apply_group mode g = (g, 0)"
proof -
  have "map (resume gathered) (apply_calls mode g) = g" for gathered
    using assms by (intro nth_equalityI) (simp_all add: apply_calls_few)
  then show ?thesis
    using assms by (simp add: apply_group_def Let_def apply_calls_few buffers_Return)
qed

text \<open>
  Claim C1. In a group of more than one process, \<^verbatim>\<open>apply\<close> gathers the values of all
  processes into a buffer in rank order, and every process ends with the sum of that
  buffer, accumulated from rank 0 upwards; every process has communicated. In a group of
  one process nothing is communicated and the value is unchanged.
\<close>

theorem apply_gathers_and_sums:
  "(1 < length g \<longrightarrow>
      MPI_gather (buffers (apply_calls mode g)) = map value_d g \<and>
      apply_group mode g =
        (replicate (length g) \<lparr>value_d = accumulate (map value_d g) 0\<rparr>, length g)) \<and>
   (length g = 1 \<longrightarrow> apply_group mode g = (g, 0))"
  by (simp add: gathered_many apply_group_many apply_group_few)

theorem apply_gathers_and_sums_witness:
  "1 < length [\<lparr>value_d = 1::real\<rparr>, \<lparr>value_d = 2\<rparr>, \<lparr>value_d = 3\<rparr>] \<and>
   MPI_gather (buffers (apply_calls ''add'' [\<lparr>value_d = 1::real\<rparr>, \<lparr>value_d = 2\<rparr>, \<lparr>value_d = 3\<rparr>]))
     = [1, 2, 3] \<and>
   apply_group ''add'' [\<lparr>value_d = 1::real\<rparr>, \<lparr>value_d = 2\<rparr>, \<lparr>value_d = 3\<rparr>]
     = ([\<lparr>value_d = 6\<rparr>, \<lparr>value_d = 6\<rparr>, \<lparr>value_d = 6\<rparr>], 3) \<and>
   length [\<lparr>value_d = 7::real\<rparr>] = 1 \<and>
   apply_group ''add'' [\<lparr>value_d = 7::real\<rparr>] = ([\<lparr>value_d = 7\<rparr>], 0)"
  using apply_gathers_and_sums [of "[\<lparr>value_d = 1::real\<rparr>, \<lparr>value_d = 2\<rparr>, \<lparr>value_d = 3\<rparr>]" "''add''"]
        apply_gathers_and_sums [of "[\<lparr>value_d = 7::real\<rparr>]" "''add''"]
  by (simp add: numeral_3_eq_3)

section \<open>Scalar: accumulation, zero and the mode of apply\<close>

lemma accumulate_sum_list:
  "accumulate xs init = init + sum_list (xs :: 'a::monoid_add list)"
  by (induction xs arbitrary: init) (simp_all add: add.assoc)

lemma add_all_accumulate:
  "map deref0 blocks = map Inr firsts \<Longrightarrow>
   add_all ndebug blocks s = Inr (s\<lparr>value_d := accumulate firsts (value_d s)\<rparr>)"
proof (induction blocks arbitrary: firsts s)
  case Nil
  then show ?case by simp
next
  case (Cons block blocks)
  then obtain f fs where firsts: "firsts = f # fs"
    by (cases firsts) auto
  with Cons.prems have first: "deref0 block = Inr f" and rest: "map deref0 blocks = map Inr fs"
    by simp_all
  from first have "block \<noteq> None"
    by (cases block) (simp_all add: deref0_def)
  with first have "Scalar_add ndebug block None None s = Inr (s\<lparr>value_d := value_d s + f\<rparr>)"
    by (simp add: Scalar_add_def c_assert_def)
  with Cons.IH [OF rest] firsts show ?case
    by simp
qed

text \<open>
  Claim C4. A new Scalar holds 0 and each \<^verbatim>\<open>add\<close> adds \<open>block[0]\<close> to the value. So on a
  new Scalar in a group of one process, a sequence of \<^verbatim>\<open>add\<close> calls whose blocks have the
  first entries \<open>firsts\<close>, followed by \<^verbatim>\<open>apply\<close>, leaves the sum of \<open>firsts\<close>, added one
  after the other to 0.
\<close>

theorem add_then_apply_single:
  "value_d (Scalar_Scalar :: 'a::{zero,plus} Scalar) = 0 \<and>
   Scalar_add ndebug (Some (b # bs)) num_rows rows s = Inr (s\<lparr>value_d := value_d s + b\<rparr>) \<and>
   (map deref0 blocks = map Inr firsts \<longrightarrow>
      add_all ndebug blocks Scalar_Scalar = Inr \<lparr>value_d = accumulate firsts (0::'a)\<rparr> \<and>
      apply_group mode [\<lparr>value_d = accumulate firsts (0::'a)\<rparr>]
        = ([\<lparr>value_d = accumulate firsts 0\<rparr>], 0))"
  by (simp add: Scalar_Scalar_def Scalar_add_Some add_all_accumulate apply_group_few)

theorem add_then_apply_single_witness:
  "map deref0 [Some [2::real], Some [3], Some [- 1]] = map Inr [2, 3, - 1] \<and>
   add_all False [Some [2::real], Some [3], Some [- 1]] Scalar_Scalar = Inr \<lparr>value_d = 4\<rparr> \<and>
   apply_group ''add'' [\<lparr>value_d = 4::real\<rparr>] = ([\<lparr>value_d = 4\<rparr>], 0)"
  using add_then_apply_single
    [of False 0 "[]" None None "\<lparr>value_d = 0::real\<rparr>"
        "[Some [2::real], Some [3], Some [- 1]]" "[2, 3, - 1]" "''add''"]
  by (simp add: deref0_def)

lemma accumulate_zeros:
  "(0::'a::{zero,plus}) + 0 = 0 \<Longrightarrow> accumulate (replicate n (0::'a)) 0 = 0"
  by (induction n) simp_all

lemma values_after_zero:
  "map value_d (map Scalar_zero g) = replicate (length g) 0"
  by (induction g) (simp_all add: Scalar_zero_def)

text \<open>
  Claim C9. \<^verbatim>\<open>zero\<close> sets the value to 0. When every process of a group calls
  \<^verbatim>\<open>zero\<close> and then \<^verbatim>\<open>apply\<close>, every process ends with the value 0: in a group of one
  process because \<^verbatim>\<open>apply\<close> changes nothing, in a larger group because the gathered zeros
  are summed, which gives 0 as soon as \<open>0 + 0 = 0\<close> in the arithmetic of the value.
\<close>

theorem zero_then_apply:
  "Scalar_zero s = \<lparr>value_d = 0\<rparr> \<and>
   apply_group mode [Scalar_zero s] = ([\<lparr>value_d = 0\<rparr>], 0) \<and>
   ((0::'a::{zero,plus}) + 0 = 0 \<longrightarrow>
      fst (apply_group mode (map Scalar_zero g)) = replicate (length g) \<lparr>value_d = (0::'a)\<rparr>)"
proof (intro conjI impI)
  show "Scalar_zero s = \<lparr>value_d = 0\<rparr>"
    by (simp add: Scalar_zero_def)
  then show "apply_group mode [Scalar_zero s] = ([\<lparr>value_d = 0\<rparr>], 0)"
    by (simp add: apply_group_few)
next
  assume zero: "(0::'a) + 0 = 0"
  show "fst (apply_group mode (map Scalar_zero g)) = replicate (length g) \<lparr>value_d = (0::'a)\<rparr>"
  proof (cases "1 < length g")
    case True
    then show ?thesis
      by (simp add: apply_group_many values_after_zero accumulate_zeros [OF zero]
               del: map_map)
  next
    case False
    have "map Scalar_zero g = replicate (length g) \<lparr>value_d = (0::'a)\<rparr>"
      by (induction g) (simp_all add: Scalar_zero_def)
    with False show ?thesis
      by (simp add: apply_group_few)
  qed
qed

theorem zero_then_apply_witness:
  "(0::real) + 0 = 0 \<and>
   Scalar_zero \<lparr>value_d = 5::real\<rparr> = \<lparr>value_d = 0\<rparr> \<and>
   apply_group ''add'' [Scalar_zero \<lparr>value_d = 5::real\<rparr>] = ([\<lparr>value_d = 0\<rparr>], 0) \<and>
   fst (apply_group ''add'' (map Scalar_zero [\<lparr>value_d = 5::real\<rparr>, \<lparr>value_d = 7\<rparr>, \<lparr>value_d = - 2\<rparr>]))
     = [\<lparr>value_d = 0\<rparr>, \<lparr>value_d = 0\<rparr>, \<lparr>value_d = 0\<rparr>]"
  using zero_then_apply
    [of "\<lparr>value_d = 5::real\<rparr>" "''add''" "[\<lparr>value_d = 5::real\<rparr>, \<lparr>value_d = 7\<rparr>, \<lparr>value_d = - 2\<rparr>]"]
  by (simp add: numeral_3_eq_3 Scalar_zero_def)

text \<open>
  Claim C10. \<^verbatim>\<open>apply\<close> never reads its mode: on every process and in every state two
  modes give the same action, and a whole group ends in the same state whatever the mode.
\<close>

theorem apply_ignores_mode:
  "Scalar_apply m1 num_processes process_number s = Scalar_apply m2 num_processes process_number s \<and>
   apply_group m1 g = apply_group m2 g"
  by (simp add: Scalar_apply_def apply_group_def apply_calls_def)

theorem apply_ignores_mode_witness:
  "apply_group ''insert'' [\<lparr>value_d = 1::real\<rparr>, \<lparr>value_d = 2\<rparr>]
     = ([\<lparr>value_d = 3\<rparr>, \<lparr>value_d = 3\<rparr>], 2) \<and>
   apply_group ''add'' [\<lparr>value_d = 1::real\<rparr>, \<lparr>value_d = 2\<rparr>]
     = ([\<lparr>value_d = 3\<rparr>, \<lparr>value_d = 3\<rparr>], 2)"
proof -
  have "apply_group ''add'' [\<lparr>value_d = 1::real\<rparr>, \<lparr>value_d = 2\<rparr>]
      = ([\<lparr>value_d = 3\<rparr>, \<lparr>value_d = 3\<rparr>], 2)"
    by (simp add: apply_group_many numeral_2_eq_2)
  with apply_ignores_mode
    [of "''insert''" 2 0 "\<lparr>value_d = 1::real\<rparr>" "''add''" "[\<lparr>value_d = 1::real\<rparr>, \<lparr>value_d = 2\<rparr>]"]
  show ?thesis
    by simp
qed

section \<open>Scalar: independence of a copy\<close>

lemma call_at_frame:
  assumes "call_at ndebug a c h = Inr h'"
  shows "length h' = length h" and "b \<noteq> a \<Longrightarrow> h' ! b = h ! b"
  using assms by (auto simp: call_at_def split: if_splits sum.splits)

lemma run_frame:
  "run ndebug cs h = Inr h' \<Longrightarrow> \<forall>c\<in>set cs. fst c \<noteq> b \<Longrightarrow> h' ! b = h ! b"
proof (induction cs arbitrary: h)
  case Nil
  then show ?case by simp
next
  case (Cons x cs)
  obtain a c where x: "x = (a, c)"
    by (cases x)
  with Cons.prems(1) obtain h1 where step: "call_at ndebug a c h = Inr h1"
    and rest: "run ndebug cs h1 = Inr h'"
    by (auto split: sum.splits)
  from Cons.prems(2) x have "b \<noteq> a" and "\<forall>c\<in>set cs. fst c \<noteq> b"
    by auto
  with Cons.IH [OF rest] call_at_frame(2) [OF step] show ?case
    by simp
qed

lemma Scalar_copy_result:
  assumes "Scalar_copy p h = Inr (q, h')"
  shows "p < length h" and "q = length h" and "h' = h @ [\<lparr>value_d = value_d (h ! p)\<rparr>]"
  using assms
  by (auto simp: Scalar_copy_def Let_def Scalar_Scalar_def nth_append split: if_splits)

text \<open>
  Claim C8. \<^verbatim>\<open>copy\<close> returns a new object, at an address other than the original's,
  that holds the value of the original, and it leaves the original as it was. The two
  objects share nothing: after any calls of \<^verbatim>\<open>resize\<close>, \<^verbatim>\<open>set\<close>, \<^verbatim>\<open>add\<close>, \<^verbatim>\<open>zero\<close> or
  assignment on the copy the original is unchanged, and after any such calls on the
  original the copy is unchanged.
\<close>

theorem copy_independent:
  assumes "Scalar_copy p h = Inr (q, h')"
  shows "q \<noteq> p \<and> value_d (h' ! q) = value_d (h ! p) \<and> h' ! p = h ! p \<and>
         ((\<forall>c\<in>set on_copy. fst c = q) \<and> run ndebug on_copy h' = Inr h2 \<longrightarrow> h2 ! p = h ! p) \<and>
         ((\<forall>c\<in>set on_original. fst c = p) \<and> run ndebug on_original h' = Inr h3 \<longrightarrow>
            value_d (h3 ! q) = value_d (h ! p))"
proof -
  note r = Scalar_copy_result [OF assms]
  from r have neq: "q \<noteq> p"
    by simp
  from r have same: "value_d (h' ! q) = value_d (h ! p)" and kept: "h' ! p = h ! p"
    by (simp_all add: nth_append)
  have "h2 ! p = h ! p" if "\<forall>c\<in>set on_copy. fst c = q" "run ndebug on_copy h' = Inr h2"
    using run_frame [OF that(2), of p] that(1) neq kept by auto
  moreover have "value_d (h3 ! q) = value_d (h ! p)"
    if "\<forall>c\<in>set on_original. fst c = p" "run ndebug on_original h' = Inr h3"
    using run_frame [OF that(2), of q] that(1) neq same by auto
  ultimately show ?thesis
    using neq same kept by blast
qed

theorem copy_independent_witness:
  "Scalar_copy 0 [\<lparr>value_d = 5::real\<rparr>] = Inr (1, [\<lparr>value_d = 5\<rparr>, \<lparr>value_d = 5\<rparr>]) \<and>
   map fst [(1::nat, Call_add (Some [2::real])), (1, Call_zero), (1, Call_assign 9),
            (1, Call_set (Some [3]))] = [1, 1, 1, 1] \<and>
   run False [(1, Call_add (Some [2::real])), (1, Call_zero), (1, Call_assign 9),
        (1, Call_set (Some [3]))] [\<lparr>value_d = 5\<rparr>, \<lparr>value_d = 5\<rparr>]
     = Inr [\<lparr>value_d = 5\<rparr>, \<lparr>value_d = 3\<rparr>] \<and>
   map fst [(0::nat, Call_add (Some [2::real])), (0, Call_set (Some [8])), (0, Call_assign 1)]
     = [0, 0, 0] \<and>
   run False [(0, Call_add (Some [2::real])), (0, Call_set (Some [8])), (0, Call_assign 1)]
       [\<lparr>value_d = 5\<rparr>, \<lparr>value_d = 5\<rparr>]
     = Inr [\<lparr>value_d = 1\<rparr>, \<lparr>value_d = 5\<rparr>] \<and>
   [\<lparr>value_d = 5::real\<rparr>, \<lparr>value_d = 3\<rparr>] ! 0 = [\<lparr>value_d = 5::real\<rparr>] ! 0 \<and>
   value_d ([\<lparr>value_d = 1::real\<rparr>, \<lparr>value_d = 5\<rparr>] ! 1) = value_d ([\<lparr>value_d = 5::real\<rparr>] ! 0)"
proof -
  have c: "Scalar_copy 0 [\<lparr>value_d = 5::real\<rparr>] = Inr (1, [\<lparr>value_d = 5\<rparr>, \<lparr>value_d = 5\<rparr>])"
    by (simp add: Scalar_copy_def Let_def Scalar_Scalar_def)
  have r1: "run False [(1, Call_add (Some [2::real])), (1, Call_zero), (1, Call_assign 9),
        (1, Call_set (Some [3]))] [\<lparr>value_d = 5\<rparr>, \<lparr>value_d = 5\<rparr>]
     = Inr [\<lparr>value_d = 5\<rparr>, \<lparr>value_d = 3\<rparr>]"
    by (simp add: call_at_def Scalar_add_def c_assert_def Scalar_set_def Scalar_zero_def
          Scalar_assign_def deref0_def)
  have r2: "run False [(0, Call_add (Some [2::real])), (0, Call_set (Some [8])), (0, Call_assign 1)]
       [\<lparr>value_d = 5\<rparr>, \<lparr>value_d = 5\<rparr>]
     = Inr [\<lparr>value_d = 1\<rparr>, \<lparr>value_d = 5\<rparr>]"
    by (simp add: call_at_def Scalar_add_def c_assert_def Scalar_set_def Scalar_zero_def
          Scalar_assign_def deref0_def)
  show ?thesis
    using c r1 r2
      copy_independent [OF c,
        where ndebug = False
          and on_copy = "[(1, Call_add (Some [2::real])), (1, Call_zero), (1, Call_assign 9),
             (1, Call_set (Some [3]))]"
          and ?h2.0 = "[\<lparr>value_d = 5\<rparr>, \<lparr>value_d = 3\<rparr>]"
          and on_original =
            "[(0, Call_add (Some [2::real])), (0, Call_set (Some [8])), (0, Call_assign 1)]"
          and ?h3.0 = "[\<lparr>value_d = 1\<rparr>, \<lparr>value_d = 5\<rparr>]"]
    by simp
qed

section \<open>Form: element tensor size and coefficient lookups\<close>

lemma fold_times_prod_list:
  "fold (\<lambda>V n. n * max_element_dofs V) Vs acc = acc * prod_list (map max_element_dofs Vs)"
  by (induction Vs arbitrary: acc) (simp_all add: mult.assoc)

lemma prod_list_nth:
  "prod_list (map max_element_dofs Vs) = (\<Prod>i<length Vs. max_element_dofs (Vs ! i))"
proof (induction Vs rule: rev_induct)
  case Nil
  then show ?case by simp
next
  case (snoc V Vs)
  have "(\<Prod>i<length Vs. max_element_dofs ((Vs @ [V]) ! i))
      = (\<Prod>i<length Vs. max_element_dofs (Vs ! i))"
    by (rule prod.cong) (simp_all add: nth_append)
  with snoc show ?case
    by simp
qed

text \<open>
  Claim C2. \<^verbatim>\<open>max_element_tensor_size()\<close> is the product, over the argument spaces of the
  form, of the maximum local degrees-of-freedom counts of the spaces: 1 for a form of rank
  0, and 12 for a form of rank 2 whose spaces have the counts 3 and 4.
\<close>

theorem max_element_tensor_size_product:
  "Form_max_element_tensor_size f = prod_list (map max_element_dofs (function_spaces f)) \<and>
   Form_max_element_tensor_size f = (\<Prod>i<Form_rank f. max_element_dofs (function_spaces f ! i)) \<and>
   (Form_rank f = 0 \<longrightarrow> Form_max_element_tensor_size f = 1) \<and>
   (map max_element_dofs (function_spaces f) = [3, 4] \<longrightarrow>
      Form_rank f = 2 \<and> Form_max_element_tensor_size f = 12)"
proof -
  have p: "Form_max_element_tensor_size f = prod_list (map max_element_dofs (function_spaces f))"
    by (simp add: Form_max_element_tensor_size_def fold_times_prod_list)
  from p have q: "Form_max_element_tensor_size f
      = (\<Prod>i<Form_rank f. max_element_dofs (function_spaces f ! i))"
    by (simp add: Form_rank_def prod_list_nth)
  have "Form_rank f = 2" if "map max_element_dofs (function_spaces f) = [3, 4]"
    using arg_cong [OF that, of length] by (simp add: Form_rank_def)
  with p q show ?thesis
    by (auto simp: Form_rank_def)
qed

theorem max_element_tensor_size_product_witness:
  "Form_rank \<lparr>function_spaces = [], coefficient_names = [], coefficient_index_map = None,
              coefficient_name_map = None\<rparr> = 0 \<and>
   Form_max_element_tensor_size
     \<lparr>function_spaces = [], coefficient_names = [], coefficient_index_map = None,
      coefficient_name_map = None\<rparr> = 1 \<and>
   map max_element_dofs
     (function_spaces
        \<lparr>function_spaces = [\<lparr>max_element_dofs = 3\<rparr>, \<lparr>max_element_dofs = 4\<rparr>],
         coefficient_names = [], coefficient_index_map = None, coefficient_name_map = None\<rparr>)
     = [3, 4] \<and>
   Form_max_element_tensor_size
     \<lparr>function_spaces = [\<lparr>max_element_dofs = 3\<rparr>, \<lparr>max_element_dofs = 4\<rparr>],
      coefficient_names = [], coefficient_index_map = None, coefficient_name_map = None\<rparr> = 12"
  using max_element_tensor_size_product
      [of "\<lparr>function_spaces = [], coefficient_names = [], coefficient_index_map = None,
             coefficient_name_map = None\<rparr>"]
    max_element_tensor_size_product
      [of "\<lparr>function_spaces = [\<lparr>max_element_dofs = 3\<rparr>, \<lparr>max_element_dofs = 4\<rparr>],
             coefficient_names = [], coefficient_index_map = None, coefficient_name_map = None\<rparr>"]
  by (simp add: Form_rank_def)








end
